theory Spec2Isabelle
  imports Main
begin

section \<open>Python values, containers and errors\<close>

text \<open>
  The module \<^verbatim>\<open>grblas/expr.py\<close> raises four Python exception classes. Each message
  template of the source is one constructor of \<open>message\<close>, carrying the values the
  template interpolates (container names are left out of the payload). \<open>Builtin\<close>
  stands for a message of the Python runtime itself (unpacking, iterating, subscripting).
\<close>

datatype message =
    IndexCannotBeTuple string
  | IndexMustBe2Tuple string
  | PositionCannotBeTuple nat
  | IndexOutOfRange int nat
  | InvalidNumberOfDimensions nat
  | InvalidDtypeForIndex
  | UnableToConvertToTuple
  | InputMaskOnlyForExtract
  | TransposedNoItemAssignment
  | OnlyScalarsHaveValue
  | MaskNotAllowedForSingleElement
  | MaskAndInputMaskBothGiven
  | InputMaskSizeNcols nat nat
  | InputMaskSizeNrows nat nat
  | VectorInputMaskForSubmatrix
  | InputMaskShapeMismatch string "nat list" "nat list"
  | IndexingNotSupportedForScalars
  | RemoveElementSingleIndex
  | ExpectType string string
  | BadTypesForEwiseInfix string string
  | BadTypesForMatmulInfix string string
  | Builtin string

datatype error =
    TypeError message
  | IndexError message
  | ValueError message
  | AttributeError message
  | UnboundLocalError string

text \<open>
  The index arguments a caller can write. \<open>PyInt\<close> is every type that
  \<^verbatim>\<open>np.issubdtype(typ, np.integer)\<close> accepts; \<open>PyNdarray ndim integer_dtype elements\<close> is a
  numpy array with \<^verbatim>\<open>len(index.shape) = ndim\<close>; \<open>PyOther it\<close> is a value of any other type,
  with the elements \<^verbatim>\<open>tuple(index)\<close> yields, or \<open>None\<close> when that call raises.
\<close>

datatype pyobj =
    PyInt int
  | PySlice "int option" "int option" "int option"
  | PyTuple "pyobj list"
  | PyList "pyobj list"
  | PyNdarray nat bool "pyobj list"
  | PyOther "pyobj list option"

datatype container =
    Scalar
  | Vector nat
  | Matrix nat nat
  | TransposedMatrix nat nat

fun shape :: "container \<Rightarrow> nat list" where
  "shape Scalar = []"
| "shape (Vector n) = [n]"
| "shape (Matrix r c) = [r, c]"
| "shape (TransposedMatrix r c) = [r, c]"

fun type_name :: "container \<Rightarrow> string" where
  "type_name Scalar = ''Scalar''"
| "type_name (Vector n) = ''Vector''"
| "type_name (Matrix r c) = ''Matrix''"
| "type_name (TransposedMatrix r c) = ''TransposedMatrix''"

fun is_scalar :: "container \<Rightarrow> bool" where
  "is_scalar Scalar = True"
| "is_scalar _ = False"


section \<open>Slices of \<^verbatim>\<open>range(size)\<close>\<close>

text \<open>
  \<^verbatim>\<open>range(size)[slice(start, stop, step)]\<close> as Python computes it: the slice is
  adjusted to the length (\<^verbatim>\<open>slice.indices\<close>), a zero step raises ValueError, and the
  result is \<^verbatim>\<open>range(start', stop', step')\<close>.
\<close>

definition slice_indices ::
  "int option \<Rightarrow> int option \<Rightarrow> int option \<Rightarrow> int \<Rightarrow> error + (int \<times> int \<times> int)" where
  "slice_indices start stop step len =
     (let st = (case step of None \<Rightarrow> 1 | Some s \<Rightarrow> s) in
      if st = 0 then Inl (ValueError (Builtin ''slice step cannot be zero''))
      else
        let lower = (if st < 0 then - 1 else 0);
            upper = (if st < 0 then len - 1 else len);
            adjust = (\<lambda>v. if v < 0 then max (v + len) lower else min v upper);
            start' = (case start of None \<Rightarrow> (if st < 0 then upper else lower) | Some v \<Rightarrow> adjust v);
            stop' = (case stop of None \<Rightarrow> (if st < 0 then lower else upper) | Some v \<Rightarrow> adjust v)
        in Inr (start', stop', st))"

definition range_len :: "int \<Rightarrow> int \<Rightarrow> int \<Rightarrow> nat" where
  "range_len start stop step =
     (if 0 < step \<and> start < stop then nat ((stop - start - 1) div step + 1)
      else if step < 0 \<and> stop < start then nat ((start - stop - 1) div (- step) + 1)
      else 0)"

definition range_list :: "int \<Rightarrow> int \<Rightarrow> int \<Rightarrow> int list" where
  "range_list start stop step =
     map (\<lambda>k. start + int k * step) [0 ..< range_len start stop step]"

definition range_getslice ::
  "nat \<Rightarrow> int option \<Rightarrow> int option \<Rightarrow> int option \<Rightarrow> error + int list" where
  "range_getslice sz start stop step =
     (case slice_indices start stop step (int sz) of
        Inl e \<Rightarrow> Inl e
      | Inr (a, b, s) \<Rightarrow> Inr (range_list a b s))"

section \<open>IndexerResolver\<close>

text \<open>
  What \<^verbatim>\<open>parse_index\<close> returns for one dimension: a pair of the index as the engine
  takes it (\<^verbatim>\<open>_CScalar\<close>, the \<^verbatim>\<open>_ALL_INDICES\<close> marker or a \<^verbatim>\<open>_CArray\<close>) and its size,
  a \<^verbatim>\<open>_CScalar\<close> or \<^verbatim>\<open>None\<close>.
\<close>

datatype carg =
    CScalar int
  | ALL_INDICES
  | CArray "pyobj list"

type_synonym index_spec = "carg \<times> carg option"

fun parse_index :: "pyobj \<Rightarrow> nat \<Rightarrow> error + index_spec" where
  "parse_index (PyInt index) sz =
     (if index \<ge> int sz then Inl (IndexError (IndexOutOfRange index sz))
      else Inr (CScalar index, None))"
| "parse_index (PySlice start stop step) sz =
     (if (start = None \<or> start = Some 0) \<and> stop = None \<and> step = None
      then Inr (ALL_INDICES, Some (CScalar (int sz)))
      else (case range_getslice sz start stop step of
              Inl e \<Rightarrow> Inl e
            | Inr xs \<Rightarrow> Inr (CArray (map PyInt xs), Some (CScalar (int (length xs))))))"
| "parse_index (PyNdarray ndim integer_dtype elems) sz =
     (if ndim \<noteq> 1 then Inl (TypeError (InvalidNumberOfDimensions ndim))
      else if \<not> integer_dtype then Inl (TypeError InvalidDtypeForIndex)
      else Inr (CArray elems, Some (CScalar (int (length elems)))))"
| "parse_index (PyList elems) sz =
     Inr (CArray elems, Some (CScalar (int (length elems))))"
| "parse_index (PyTuple elems) sz =
     Inr (CArray elems, Some (CScalar (int (length elems))))"
| "parse_index (PyOther it) sz =
     (case it of
        None \<Rightarrow> Inl (TypeError UnableToConvertToTuple)
      | Some elems \<Rightarrow> Inr (CArray elems, Some (CScalar (int (length elems)))))"

fun is_tuple :: "pyobj \<Rightarrow> bool" where
  "is_tuple (PyTuple xs) = True"
| "is_tuple _ = False"

text \<open>
  The loop of \<^verbatim>\<open>parse_indices\<close>: \<open>i\<close> is the position \<^verbatim>\<open>enumerate\<close> counts, \<open>out\<close> the
  list built so far. \<^verbatim>\<open>shape[i]\<close> past the end of the shape raises IndexError.
\<close>

fun parse_indices_loop ::
  "nat list \<Rightarrow> nat \<Rightarrow> pyobj list \<Rightarrow> index_spec list \<Rightarrow> error + index_spec list" where
  "parse_indices_loop shp i [] out = Inr out"
| "parse_indices_loop shp i (idx # rest) out =
     (if is_tuple idx then Inl (TypeError (PositionCannotBeTuple i))
      else if i \<ge> length shp then Inl (IndexError (Builtin ''tuple index out of range''))
      else (case parse_index idx (shp ! i) of
              Inl e \<Rightarrow> Inl e
            | Inr spec \<Rightarrow> parse_indices_loop shp (Suc i) rest (out @ [spec])))"

text \<open>Iterating a Python value, as \<^verbatim>\<open>enumerate(indices)\<close> does when no branch wrapped it.\<close>

fun py_iter :: "pyobj \<Rightarrow> error + pyobj list" where
  "py_iter (PyTuple xs) = Inr xs"
| "py_iter (PyList xs) = Inr xs"
| "py_iter (PyNdarray ndim integer_dtype elems) =
     (if ndim = 0 then Inl (TypeError (Builtin ''iteration over a 0-d array'')) else Inr elems)"
| "py_iter (PyOther it) =
     (case it of None \<Rightarrow> Inl (TypeError (Builtin ''object is not iterable'')) | Some xs \<Rightarrow> Inr xs)"
| "py_iter (PyInt i) = Inl (TypeError (Builtin ''object is not iterable''))"
| "py_iter (PySlice a b c) = Inl (TypeError (Builtin ''object is not iterable''))"

definition parse_indices :: "container \<Rightarrow> pyobj \<Rightarrow> nat list \<Rightarrow> error + index_spec list" where
  "parse_indices obj indices shp =
     (if length shp = 1 then
        (if is_tuple indices then Inl (TypeError (IndexCannotBeTuple (type_name obj)))
         else parse_indices_loop shp 0 [indices] [])
      else if length shp = 2 then
        (case indices of
           PyTuple [a, b] \<Rightarrow> parse_indices_loop shp 0 [a, b] []
         | _ \<Rightarrow> Inl (TypeError (IndexMustBe2Tuple (type_name obj))))
      else
        (case py_iter indices of
           Inl e \<Rightarrow> Inl e
         | Inr xs \<Rightarrow> parse_indices_loop shp 0 xs []))"

record resolver =
  obj :: container
  indices :: "index_spec list"

definition IndexerResolver :: "container \<Rightarrow> pyobj \<Rightarrow> error + resolver" where
  "IndexerResolver ob keys =
     (case parse_indices ob keys (shape ob) of
        Inl e \<Rightarrow> Inl e
      | Inr specs \<Rightarrow> Inr \<lparr>obj = ob, indices = specs\<rparr>)"

fun is_single_element_loop :: "index_spec list \<Rightarrow> bool" where
  "is_single_element_loop [] = True"
| "is_single_element_loop ((idx, sz) # rest) =
     (if sz \<noteq> None then False else is_single_element_loop rest)"

definition is_single_element :: "resolver \<Rightarrow> bool" where
  "is_single_element self = is_single_element_loop (indices self)"

definition get_index :: "resolver \<Rightarrow> nat \<Rightarrow> error + resolver" where
  "get_index self dim =
     (if dim < length (indices self)
      then Inr \<lparr>obj = obj self, indices = [indices self ! dim]\<rparr>
      else Inl (IndexError (Builtin ''list index out of range'')))"

section \<open>The container primitives\<close>

text \<open>
  The containers and the engine are outside \<^verbatim>\<open>expr.py\<close>. Their primitives are
  parameters of the model: each takes the state of the engine \<open>'w\<close> and returns either the
  error it raised or its result, with the state it left. \<open>'v\<close> is the type of assigned
  values, \<open>'d\<close> of deferred assignments and \<open>'x\<close> of deferred extractions.
\<close>

datatype mask = Mask string container

datatype kwarg = KwNone | KwMask mask | KwOp string | KwBool bool

type_synonym kwargs = "(string \<times> kwarg) list"

datatype updater = Updater container kwargs

type_synonym ('w, 'a) prim = "'w \<Rightarrow> (error + 'a) \<times> 'w"

record ('w, 'v, 'd, 'x) engine =
  assign_element :: "container \<Rightarrow> resolver \<Rightarrow> 'v \<Rightarrow> ('w, unit) prim"
  delete_element :: "container \<Rightarrow> resolver \<Rightarrow> ('w, unit) prim"
  prep_for_assign :: "container \<Rightarrow> resolver \<Rightarrow> 'v \<Rightarrow> kwarg \<Rightarrow> bool \<Rightarrow> ('w, 'd) prim"
  update :: "container \<Rightarrow> 'd \<Rightarrow> kwargs \<Rightarrow> ('w, unit) prim"
  extract_element :: "container \<Rightarrow> resolver \<Rightarrow> string option \<Rightarrow> string option \<Rightarrow> ('w, container) prim"
  prep_for_extract :: "container \<Rightarrow> resolver \<Rightarrow> ('w, 'x) prim"
  extractor_new :: "'x \<Rightarrow> string option \<Rightarrow> mask option \<Rightarrow> string option \<Rightarrow> ('w, container) prim"
  check_mask :: "mask \<Rightarrow> container \<Rightarrow> ('w, unit) prim"

definition py_return :: "'a \<Rightarrow> ('w, 'a) prim" where
  "py_return a w = (Inr a, w)"

definition py_raise :: "error \<Rightarrow> ('w, 'a) prim" where
  "py_raise e w = (Inl e, w)"

definition lift :: "error + 'a \<Rightarrow> ('w, 'a) prim" where
  "lift r w = (r, w)"

definition and_then :: "('w, 'a) prim \<Rightarrow> ('a \<Rightarrow> ('w, 'b) prim) \<Rightarrow> ('w, 'b) prim" where
  "and_then m f w = (case m w of (Inl e, w') \<Rightarrow> (Inl e, w') | (Inr a, w') \<Rightarrow> f a w')"

text \<open>\<^verbatim>\<open>kwargs.get(key)\<close>: the value stored under the key, \<^verbatim>\<open>None\<close> when there is none.\<close>

definition kwargs_get :: "kwargs \<Rightarrow> string \<Rightarrow> kwarg" where
  "kwargs_get kw key = (case map_of kw key of None \<Rightarrow> KwNone | Some v \<Rightarrow> v)"

fun kwargs_of :: "updater \<Rightarrow> kwargs" where
  "kwargs_of (Updater parent kw) = kw"

fun parent_of :: "updater \<Rightarrow> container" where
  "parent_of (Updater parent kw) = parent"

section \<open>Assigner\<close>

datatype assigner = Assigner updater resolver bool

definition Assigner_init :: "updater \<Rightarrow> resolver \<Rightarrow> bool \<Rightarrow> error + assigner" where
  "Assigner_init up resolved_indexes is_submask =
     (if kwargs_get (kwargs_of up) ''input_mask'' \<noteq> KwNone
      then Inl (TypeError InputMaskOnlyForExtract)
      else Inr (Assigner up resolved_indexes is_submask))"

section \<open>Updater\<close>

fun Updater_update :: "('w, 'v, 'd, 'x) engine \<Rightarrow> updater \<Rightarrow> 'd \<Rightarrow> ('w, unit) prim" where
  "Updater_update E (Updater parent kw) delayed = update E parent delayed kw"

fun Updater_lshift :: "('w, 'v, 'd, 'x) engine \<Rightarrow> updater \<Rightarrow> 'd \<Rightarrow> ('w, unit) prim" where
  "Updater_lshift E (Updater parent kw) delayed = update E parent delayed kw"

text \<open>The commit routine, \<^verbatim>\<open>Updater._setitem\<close>.\<close>

fun Updater_setitem ::
  "('w, 'v, 'd, 'x) engine \<Rightarrow> updater \<Rightarrow> resolver \<Rightarrow> 'v \<Rightarrow> bool \<Rightarrow> ('w, unit) prim" where
  "Updater_setitem E (Updater parent kw) resolved_indexes ob is_submask =
     (if is_single_element resolved_indexes \<and> kw = []
      then assign_element E parent resolved_indexes ob
      else and_then
             (prep_for_assign E parent resolved_indexes ob (kwargs_get kw ''mask'') is_submask)
             (\<lambda>delayed. Updater_update E (Updater parent kw) delayed))"

text \<open>\<^verbatim>\<open>Updater.__getitem__\<close>, \<^verbatim>\<open>__setitem__\<close> and \<^verbatim>\<open>__delitem__\<close>.\<close>

fun Updater_dunder_getitem :: "updater \<Rightarrow> pyobj \<Rightarrow> error + assigner" where
  "Updater_dunder_getitem (Updater parent kw) keys =
     (if is_scalar parent then Inl (TypeError IndexingNotSupportedForScalars)
      else (case IndexerResolver parent keys of
              Inl e \<Rightarrow> Inl e
            | Inr resolved_indexes \<Rightarrow> Assigner_init (Updater parent kw) resolved_indexes False))"

fun Updater_dunder_setitem ::
  "('w, 'v, 'd, 'x) engine \<Rightarrow> updater \<Rightarrow> pyobj \<Rightarrow> 'v \<Rightarrow> ('w, unit) prim" where
  "Updater_dunder_setitem E (Updater parent kw) keys ob =
     (if is_scalar parent then py_raise (TypeError IndexingNotSupportedForScalars)
      else and_then (lift (IndexerResolver parent keys))
             (\<lambda>resolved_indexes. Updater_setitem E (Updater parent kw) resolved_indexes ob False))"

fun Updater_dunder_delitem ::
  "('w, 'v, 'd, 'x) engine \<Rightarrow> updater \<Rightarrow> pyobj \<Rightarrow> ('w, unit) prim" where
  "Updater_dunder_delitem E (Updater parent kw) keys =
     (if is_scalar parent then py_raise (TypeError IndexingNotSupportedForScalars)
      else and_then (lift (IndexerResolver parent keys))
             (\<lambda>resolved_indexes.
                if is_single_element resolved_indexes
                then delete_element E parent resolved_indexes
                else py_raise (TypeError RemoveElementSingleIndex)))"

text \<open>\<^verbatim>\<open>Assigner.update\<close> and \<^verbatim>\<open>Assigner.__lshift__\<close>.\<close>

fun Assigner_update :: "('w, 'v, 'd, 'x) engine \<Rightarrow> assigner \<Rightarrow> 'v \<Rightarrow> ('w, unit) prim" where
  "Assigner_update E (Assigner up resolved_indexes is_submask) ob =
     Updater_setitem E up resolved_indexes ob is_submask"

fun Assigner_dunder_lshift :: "('w, 'v, 'd, 'x) engine \<Rightarrow> assigner \<Rightarrow> 'v \<Rightarrow> ('w, unit) prim" where
  "Assigner_dunder_lshift E (Assigner up resolved_indexes is_submask) ob =
     Updater_setitem E up resolved_indexes ob is_submask"

section \<open>AmbiguousAssignOrExtract\<close>

datatype staging = AmbiguousAssignOrExtract container resolver

text \<open>
  Modelled from the spec: the call of a container with parameters, \<^verbatim>\<open>parent(*args, **kwargs)\<close>,
  is defined outside \<^verbatim>\<open>expr.py\<close>. By the specification it "builds a freshly parameterized
  Updater", which "captures call-time parameters (mask, accumulator, replace,
  input_mask)", for every container the staging object is bound to. The specification
  names the parameters and says nothing of passing them by position: the model captures
  the parameters given by name, and the theorems take calls with no positional one.
\<close>

definition container_call :: "container \<Rightarrow> kwarg list \<Rightarrow> kwargs \<Rightarrow> updater" where
  "container_call parent args kw = Updater parent kw"

fun AmbiguousAssignOrExtract_dunder_call ::
  "staging \<Rightarrow> kwarg list \<Rightarrow> kwargs \<Rightarrow> error + assigner" where
  "AmbiguousAssignOrExtract_dunder_call (AmbiguousAssignOrExtract parent resolved_indexes) args kw =
     (let up = container_call parent args kw;
          is_submask = (kwargs_get (kwargs_of up) ''mask'' \<noteq> KwNone)
      in Assigner_init up resolved_indexes is_submask)"



text \<open>Attributes that only some containers have; reading a missing one raises AttributeError.\<close>

fun size_attr :: "container \<Rightarrow> error + nat" where
  "size_attr (Vector n) = Inr n"
| "size_attr _ = Inl (AttributeError (Builtin ''_size''))"

fun nrows_attr :: "container \<Rightarrow> error + nat" where
  "nrows_attr (Matrix r c) = Inr r"
| "nrows_attr (TransposedMatrix r c) = Inr r"
| "nrows_attr _ = Inl (AttributeError (Builtin ''_nrows''))"

fun ncols_attr :: "container \<Rightarrow> error + nat" where
  "ncols_attr (Matrix r c) = Inr c"
| "ncols_attr (TransposedMatrix r c) = Inr c"
| "ncols_attr _ = Inl (AttributeError (Builtin ''_ncols''))"

fun is_Vector :: "container \<Rightarrow> bool" where
  "is_Vector (Vector n) = True"
| "is_Vector _ = False"

text \<open>
  The first half of \<^verbatim>\<open>_input_mask_to_mask\<close>, up to the binding of \<^verbatim>\<open>mask_expr\<close>.
  \<open>m\<close> is \<^verbatim>\<open>input_mask.mask\<close>.
\<close>

definition input_mask_expr ::
  "('w, 'v, 'd, 'x) engine \<Rightarrow> container \<Rightarrow> resolver \<Rightarrow> container \<Rightarrow> ('w, 'x) prim" where
  "input_mask_expr E parent resolved_indexes m =
     (if is_Vector m \<and> \<not> is_Vector parent then
        (case indices resolved_indexes of
           [(r, rowsize), (c, colsize)] \<Rightarrow>
             (if rowsize = None then
                and_then (lift (ncols_attr parent)) (\<lambda>ncols.
                and_then (lift (size_attr m)) (\<lambda>msize.
                  if ncols \<noteq> msize then py_raise (ValueError (InputMaskSizeNcols ncols msize))
                  else and_then (lift (get_index resolved_indexes 1))
                         (\<lambda>col_index. prep_for_extract E m col_index)))
              else if colsize = None then
                and_then (lift (nrows_attr parent)) (\<lambda>nrows.
                and_then (lift (size_attr m)) (\<lambda>msize.
                  if nrows \<noteq> msize then py_raise (ValueError (InputMaskSizeNrows nrows msize))
                  else and_then (lift (get_index resolved_indexes 0))
                         (\<lambda>row_index. prep_for_extract E m row_index)))
              else py_raise (TypeError VectorInputMaskForSubmatrix))
         | _ \<Rightarrow> py_raise (ValueError (Builtin ''wrong number of values to unpack'')))
      else if shape m \<noteq> shape parent then
        (if is_Vector parent then
           and_then (lift (size_attr parent)) (\<lambda>shape1.
           and_then (lift (size_attr m)) (\<lambda>shape2.
             py_raise (ValueError (InputMaskShapeMismatch ''size'' [shape1] [shape2]))))
         else py_raise (ValueError (InputMaskShapeMismatch ''shape'' (shape parent) (shape m))))
      else prep_for_extract E m resolved_indexes)"

fun AmbiguousAssignOrExtract_input_mask_to_mask ::
  "('w, 'v, 'd, 'x) engine \<Rightarrow> staging \<Rightarrow> mask \<Rightarrow> ('w, mask) prim" where
  "AmbiguousAssignOrExtract_input_mask_to_mask E (AmbiguousAssignOrExtract parent resolved_indexes) (Mask mask_type m) =
     and_then (input_mask_expr E parent resolved_indexes m) (\<lambda>mask_expr.
     and_then (extractor_new E mask_expr None None (Some ''mask_temp'')) (\<lambda>mask_value.
       py_return (Mask mask_type mask_value)))"

fun AmbiguousAssignOrExtract_new ::
  "('w, 'v, 'd, 'x) engine \<Rightarrow> staging \<Rightarrow> string option \<Rightarrow> mask option \<Rightarrow> mask option \<Rightarrow>
     string option \<Rightarrow> ('w, container) prim" where
  "AmbiguousAssignOrExtract_new E (AmbiguousAssignOrExtract parent resolved_indexes) dtype msk input_mask name =
     (if is_single_element resolved_indexes then
        (if msk \<noteq> None \<or> input_mask \<noteq> None
         then py_raise (TypeError MaskNotAllowedForSingleElement)
         else extract_element E parent resolved_indexes dtype name)
      else
        and_then
          (case input_mask of
             None \<Rightarrow> py_return msk
           | Some im \<Rightarrow>
               (if msk \<noteq> None then py_raise (TypeError MaskAndInputMaskBothGiven)
                else and_then (check_mask E im parent) (\<lambda>u.
                     and_then (AmbiguousAssignOrExtract_input_mask_to_mask E
                                 (AmbiguousAssignOrExtract parent resolved_indexes) im)
                       (\<lambda>derived. py_return (Some derived)))))
          (\<lambda>msk'. and_then (prep_for_extract E parent resolved_indexes)
                    (\<lambda>delayed_extractor. extractor_new E delayed_extractor dtype msk' name)))"

section \<open>Infix expressions\<close>

text \<open>
  An operand of an infix operator is a container or a value of another type, known by
  the name of its type. \<open>type_of\<close> is \<^verbatim>\<open>type(x)\<close>, as far as the dispatch tells types
  apart.
\<close>

datatype operand = Obj container | Foreign string

datatype pytype = VectorT | MatrixT | TransposedMatrixT | OtherT string

fun type_of :: "operand \<Rightarrow> pytype" where
  "type_of (Obj (Vector n)) = VectorT"
| "type_of (Obj (Matrix r c)) = MatrixT"
| "type_of (Obj (TransposedMatrix r c)) = TransposedMatrixT"
| "type_of (Obj Scalar) = OtherT ''Scalar''"
| "type_of (Foreign name) = OtherT name"

fun type_str :: "operand \<Rightarrow> string" where
  "type_str (Obj c) = type_name c"
| "type_str (Foreign name) = name"

fun operand_size :: "operand \<Rightarrow> error + nat" where
  "operand_size (Obj (Vector n)) = Inr n"
| "operand_size _ = Inl (AttributeError (Builtin ''size''))"

fun operand_nrows :: "operand \<Rightarrow> error + nat" where
  "operand_nrows (Obj (Matrix r c)) = Inr r"
| "operand_nrows (Obj (TransposedMatrix r c)) = Inr r"
| "operand_nrows _ = Inl (AttributeError (Builtin ''nrows''))"

fun operand_ncols :: "operand \<Rightarrow> error + nat" where
  "operand_ncols (Obj (Matrix r c)) = Inr c"
| "operand_ncols (Obj (TransposedMatrix r c)) = Inr c"
| "operand_ncols _ = Inl (AttributeError (Builtin ''ncols''))"

text \<open>
  Modelled from the spec: the container method \<^verbatim>\<open>_expect_type(other, allowed, within, argname)\<close>
  is defined outside \<^verbatim>\<open>expr.py\<close>; it "raises on variant mismatch, else no-op", the error
  being a TypeError that names the argument.
\<close>

definition expect_type :: "operand \<Rightarrow> pytype list \<Rightarrow> string \<Rightarrow> string \<Rightarrow> error option" where
  "expect_type x types within argname =
     (if type_of x \<in> set types then None else Some (TypeError (ExpectType within argname)))"

text \<open>
  The probe \<^verbatim>\<open>getattr(left, method)(right, op)\<close> is a method of the containers, a parameter
  of the model: it raises, or returns a vector expression (\<^verbatim>\<open>output_type is Vector\<close>) with
  its \<^verbatim>\<open>_size\<close>, or a matrix expression with its \<^verbatim>\<open>nrows\<close> and \<^verbatim>\<open>ncols\<close>.
\<close>

datatype probe_expr = VectorExpression nat | MatrixExpression nat nat

type_synonym probe = "string \<Rightarrow> operand \<Rightarrow> operand \<Rightarrow> error + probe_expr"

datatype infix_expr =
    VectorEwiseAddExpr operand operand nat
  | VectorEwiseMultExpr operand operand nat
  | VectorMatMulExpr operand operand string nat
  | MatrixEwiseAddExpr operand operand nat nat
  | MatrixEwiseMultExpr operand operand nat nat
  | MatrixMatMulExpr operand operand nat nat

fun method_name :: "infix_expr \<Rightarrow> string" where
  "method_name (VectorEwiseAddExpr l r n) = ''ewise_add''"
| "method_name (VectorEwiseMultExpr l r n) = ''ewise_mult''"
| "method_name (VectorMatMulExpr l r m n) = m"
| "method_name (MatrixEwiseAddExpr l r a b) = ''ewise_add''"
| "method_name (MatrixEwiseMultExpr l r a b) = ''ewise_mult''"
| "method_name (MatrixMatMulExpr l r a b) = ''mxm''"

fun is_vector_expr :: "infix_expr \<Rightarrow> bool" where
  "is_vector_expr (VectorEwiseAddExpr l r n) = True"
| "is_vector_expr (VectorEwiseMultExpr l r n) = True"
| "is_vector_expr (VectorMatMulExpr l r m n) = True"
| "is_vector_expr _ = False"

fun expr_size :: "infix_expr \<Rightarrow> nat option" where
  "expr_size (VectorEwiseAddExpr l r n) = Some n"
| "expr_size (VectorEwiseMultExpr l r n) = Some n"
| "expr_size (VectorMatMulExpr l r m n) = Some n"
| "expr_size _ = None"

text \<open>The constructors of the four element-wise nodes read the shape off the left operand.\<close>

definition VectorEwiseAddExpr_init :: "operand \<Rightarrow> operand \<Rightarrow> error + infix_expr" where
  "VectorEwiseAddExpr_init left right =
     (case operand_size left of Inl e \<Rightarrow> Inl e | Inr n \<Rightarrow> Inr (VectorEwiseAddExpr left right n))"

definition VectorEwiseMultExpr_init :: "operand \<Rightarrow> operand \<Rightarrow> error + infix_expr" where
  "VectorEwiseMultExpr_init left right =
     (case operand_size left of Inl e \<Rightarrow> Inl e | Inr n \<Rightarrow> Inr (VectorEwiseMultExpr left right n))"

definition MatrixEwiseAddExpr_init :: "operand \<Rightarrow> operand \<Rightarrow> error + infix_expr" where
  "MatrixEwiseAddExpr_init left right =
     (case operand_nrows left of
        Inl e \<Rightarrow> Inl e
      | Inr r \<Rightarrow> (case operand_ncols left of
                   Inl e \<Rightarrow> Inl e
                 | Inr c \<Rightarrow> Inr (MatrixEwiseAddExpr left right r c)))"

definition MatrixEwiseMultExpr_init :: "operand \<Rightarrow> operand \<Rightarrow> error + infix_expr" where
  "MatrixEwiseMultExpr_init left right =
     (case operand_nrows left of
        Inl e \<Rightarrow> Inl e
      | Inr r \<Rightarrow> (case operand_ncols left of
                   Inl e \<Rightarrow> Inl e
                 | Inr c \<Rightarrow> Inr (MatrixEwiseMultExpr left right r c)))"

text \<open>The checks of \<^verbatim>\<open>_ewise_infix_expr\<close> before the probe: \<open>None\<close> when none raised.\<close>

definition ewise_type_check :: "operand \<Rightarrow> operand \<Rightarrow> string \<Rightarrow> error option" where
  "ewise_type_check left right within =
     (let left_type = type_of left; right_type = type_of right in
      if left_type \<in> {VectorT, MatrixT, TransposedMatrixT} then
        (if \<not> (left_type = right_type
                \<or> (left_type = MatrixT \<and> right_type = TransposedMatrixT)
                \<or> (left_type = TransposedMatrixT \<and> right_type = MatrixT))
         then (if left_type = VectorT
               then expect_type right [VectorT] within ''right''
               else expect_type right [MatrixT, TransposedMatrixT] within ''right'')
         else None)
      else if right_type = VectorT then expect_type left [VectorT] within ''left''
      else if right_type = MatrixT \<or> right_type = TransposedMatrixT
        then expect_type left [MatrixT, TransposedMatrixT] within ''left''
      else Some (TypeError (BadTypesForEwiseInfix (type_str left) (type_str right))))"

definition ewise_infix_expr ::
  "probe \<Rightarrow> operand \<Rightarrow> operand \<Rightarrow> string \<Rightarrow> string \<Rightarrow> error + infix_expr" where
  "ewise_infix_expr prb left right method within =
     (case ewise_type_check left right within of
        Some e \<Rightarrow> Inl e
      | None \<Rightarrow>
          (case prb method left right of
             Inl e \<Rightarrow> Inl e
           | Inr (VectorExpression n) \<Rightarrow>
               (if method = ''ewise_mult'' then VectorEwiseMultExpr_init left right
                else VectorEwiseAddExpr_init left right)
           | Inr (MatrixExpression r c) \<Rightarrow>
               (if method = ''ewise_mult'' then MatrixEwiseMultExpr_init left right
                else MatrixEwiseAddExpr_init left right)))"

text \<open>
  The branches of \<^verbatim>\<open>_matmul_infix_expr\<close> before the probe: the error raised, or the
  method bound; \<open>Inr None\<close> when a branch returned without binding \<^verbatim>\<open>method\<close>.
\<close>

definition matmul_method :: "operand \<Rightarrow> operand \<Rightarrow> string \<Rightarrow> error + string option" where
  "matmul_method left right within =
     (let left_type = type_of left; right_type = type_of right;
          after = (\<lambda>r. case r of Some e \<Rightarrow> Inl e | None \<Rightarrow> Inr None) in
      if left_type = VectorT then
        (if right_type = MatrixT \<or> right_type = TransposedMatrixT then Inr (Some ''vxm'')
         else after (expect_type right [MatrixT, TransposedMatrixT] within ''right''))
      else if left_type = MatrixT \<or> left_type = TransposedMatrixT then
        (if right_type = VectorT then Inr (Some ''mxv'')
         else if right_type = MatrixT \<or> right_type = TransposedMatrixT then Inr (Some ''mxm'')
         else after (expect_type right [VectorT, MatrixT, TransposedMatrixT] within ''right''))
      else if right_type = VectorT
        then after (expect_type left [MatrixT, TransposedMatrixT] within ''left'')
      else if right_type = MatrixT \<or> right_type = TransposedMatrixT
        then after (expect_type left [VectorT, MatrixT, TransposedMatrixT] within ''left'')
      else Inl (TypeError (BadTypesForMatmulInfix (type_str left) (type_str right))))"

definition matmul_infix_expr :: "probe \<Rightarrow> operand \<Rightarrow> operand \<Rightarrow> string \<Rightarrow> error + infix_expr" where
  "matmul_infix_expr prb left right within =
     (case matmul_method left right within of
        Inl e \<Rightarrow> Inl e
      | Inr None \<Rightarrow> Inl (UnboundLocalError ''method'')
      | Inr (Some method) \<Rightarrow>
          (case prb method left right of
             Inl e \<Rightarrow> Inl e
           | Inr (VectorExpression n) \<Rightarrow> Inr (VectorMatMulExpr left right method n)
           | Inr (MatrixExpression r c) \<Rightarrow> Inr (MatrixMatMulExpr left right r c)))"

section \<open>Statements of the caller\<close>

text \<open>
  The comments of the source name the statements that reach each method. Two of them
  chain two methods: \<^verbatim>\<open>C(params)[index] << obj\<close> is \<^verbatim>\<open>Updater.__getitem__\<close> followed by
  \<^verbatim>\<open>Assigner.__lshift__\<close>, and \<^verbatim>\<open>C[index](params) << obj\<close> is
  \<^verbatim>\<open>AmbiguousAssignOrExtract.__call__\<close> followed by \<^verbatim>\<open>Assigner.__lshift__\<close>.
\<close>

definition updater_getitem_lshift ::
  "('w, 'v, 'd, 'x) engine \<Rightarrow> updater \<Rightarrow> pyobj \<Rightarrow> 'v \<Rightarrow> ('w, unit) prim" where
  "updater_getitem_lshift E up keys ob =
     and_then (lift (Updater_dunder_getitem up keys)) (\<lambda>a. Assigner_dunder_lshift E a ob)"


text \<open>Reading an outcome: whether it is a TypeError, and the argument name it carries.\<close>

fun is_TypeError :: "error + 'a \<Rightarrow> bool" where
  "is_TypeError (Inl (TypeError m)) = True"
| "is_TypeError _ = False"

fun named_argument :: "error + 'a \<Rightarrow> string option" where
  "named_argument (Inl (TypeError (ExpectType within argname))) = Some argname"
| "named_argument _ = None"

section \<open>An engine for concrete evaluations\<close>

text \<open>
  The theorems below hold for every engine and every probe. To evaluate the model on
  concrete inputs, \<open>recording_engine\<close> is an engine whose state is the list of the
  primitive calls made so far, each primitive succeeding, and \<open>shape_probe\<close> a probe that
  applies the usual shape rules. Neither is part of \<^verbatim>\<open>expr.py\<close>.
\<close>

datatype call =
    AssignElementCall container resolver
  | DeleteElementCall container resolver
  | PrepForAssignCall container resolver kwarg bool
  | UpdateCall container kwargs
  | ExtractElementCall container resolver
  | PrepForExtractCall container resolver
  | NewCall "mask option" "string option"
  | CheckMaskCall mask container

fun spec_dims :: "index_spec list \<Rightarrow> nat list" where
  "spec_dims [] = []"
| "spec_dims ((idx, Some (CScalar n)) # rest) = nat n # spec_dims rest"
| "spec_dims (other # rest) = spec_dims rest"

fun container_of_dims :: "nat list \<Rightarrow> container" where
  "container_of_dims [n] = Vector n"
| "container_of_dims [r, c] = Matrix r c"
| "container_of_dims _ = Scalar"

definition recording_engine :: "(call list, nat, unit, resolver) engine" where
  "recording_engine =
     \<lparr> assign_element = (\<lambda>p r v w. (Inr (), w @ [AssignElementCall p r])),
       delete_element = (\<lambda>p r w. (Inr (), w @ [DeleteElementCall p r])),
       prep_for_assign = (\<lambda>p r v m s w. (Inr (), w @ [PrepForAssignCall p r m s])),
       update = (\<lambda>p d kw w. (Inr (), w @ [UpdateCall p kw])),
       extract_element = (\<lambda>p r dt nm w. (Inr Scalar, w @ [ExtractElementCall p r])),
       prep_for_extract = (\<lambda>p r w. (Inr r, w @ [PrepForExtractCall p r])),
       extractor_new =
         (\<lambda>x dt m nm w. (Inr (container_of_dims (spec_dims (indices x))), w @ [NewCall m nm])),
       check_mask = (\<lambda>m p w. (Inr (), w @ [CheckMaskCall m p])) \<rparr>"

fun shape_probe :: probe where
  "shape_probe method (Obj (Vector n)) (Obj (Vector m)) =
     (if (method = ''ewise_add'' \<or> method = ''ewise_mult'') \<and> n = m
      then Inr (VectorExpression n) else Inl (ValueError (Builtin ''dimension mismatch'')))"
| "shape_probe method (Obj (Vector n)) (Obj (Matrix r c)) =
     (if method = ''vxm'' \<and> n = r
      then Inr (VectorExpression c) else Inl (ValueError (Builtin ''dimension mismatch'')))"
| "shape_probe method (Obj (Matrix r c)) (Obj (Vector n)) =
     (if method = ''mxv'' \<and> c = n
      then Inr (VectorExpression r) else Inl (ValueError (Builtin ''dimension mismatch'')))"
| "shape_probe method (Obj (Matrix r c)) (Obj (Matrix r' c')) =
     (if method = ''mxm'' \<and> c = r' then Inr (MatrixExpression r c')
      else if (method = ''ewise_add'' \<or> method = ''ewise_mult'') \<and> r = r' \<and> c = c'
        then Inr (MatrixExpression r c)
      else Inl (ValueError (Builtin ''dimension mismatch'')))"
| "shape_probe method left right = Inl (TypeError (Builtin ''unsupported operands''))"

section \<open>Facts about slices and the index loop\<close>

lemma range_list_pos:
  assumes "0 < st" and "x \<in> set (range_list s e st)"
  shows "s \<le> x \<and> x < e"
proof -
  from assms obtain k where k: "k < range_len s e st" "x = s + int k * st"
    by (auto simp: range_list_def)
  from k(1) assms(1) have kk: "int k \<le> (e - s - 1) div st"
    by (auto simp: range_len_def split: if_splits)
  have "int k * st \<le> ((e - s - 1) div st) * st"
    using kk assms(1) by (simp add: mult_right_mono)
  also have "\<dots> \<le> e - s - 1"
    using assms(1) by (metis pos_mod_sign div_mult_mod_eq le_add_same_cancel1)
  finally show ?thesis using k(2) assms(1) by auto
qed

lemma range_list_neg:
  assumes "st < 0" and "x \<in> set (range_list s e st)"
  shows "e < x \<and> x \<le> s"
proof -
  from assms obtain k where k: "k < range_len s e st" "x = s + int k * st"
    by (auto simp: range_list_def)
  from k(1) assms(1) have kk: "int k \<le> (s - e - 1) div (- st)"
    by (auto simp: range_len_def split: if_splits)
  have pos: "0 < - st" using assms(1) by simp
  have "int k * (- st) \<le> ((s - e - 1) div (- st)) * (- st)"
    using kk pos by (simp only: mult_right_mono less_imp_le)
  also have "\<dots> \<le> s - e - 1"
    using pos by (metis pos_mod_sign div_mult_mod_eq le_add_same_cancel1)
  finally have "int k * (- st) \<le> s - e - 1" .
  moreover have "0 \<le> int k * (- st)" using pos by (intro mult_nonneg_nonneg) simp_all
  ultimately show ?thesis using k(2) by (simp add: algebra_simps)
qed

lemma slice_indices_pos:
  assumes "slice_indices a b c len = Inr (s, e, st)" and "0 \<le> len" and "0 < st"
  shows "0 \<le> s \<and> e \<le> len"
  using assms
  by (auto simp: slice_indices_def Let_def split: option.splits if_splits)

lemma slice_indices_neg:
  assumes "slice_indices a b c len = Inr (s, e, st)" and "0 \<le> len" and "st < 0"
  shows "s \<le> len - 1 \<and> - 1 \<le> e"
  using assms
  by (auto simp: slice_indices_def Let_def split: option.splits if_splits)

lemma slice_indices_step: "slice_indices a b c len = Inr (s, e, st) \<Longrightarrow> st \<noteq> 0"
  by (auto simp: slice_indices_def Let_def split: option.splits if_splits)

text \<open>Every index a slice of \<^verbatim>\<open>range(n)\<close> yields lies in \<open>[0, n)\<close>.\<close>

lemma range_getslice_bounds:
  assumes "range_getslice n a b c = Inr xs" and "x \<in> set xs"
  shows "0 \<le> x \<and> x < int n"
proof -
  from assms(1) obtain s e st where si: "slice_indices a b c (int n) = Inr (s, e, st)"
    and xs: "xs = range_list s e st"
    by (auto simp: range_getslice_def split: sum.splits)
  have "st \<noteq> 0" using si by (rule slice_indices_step)
  then consider "0 < st" | "st < 0" by linarith
  then show ?thesis
  proof cases
    case 1
    with slice_indices_pos[OF si] range_list_pos[of st x s e] assms(2) xs show ?thesis by auto
  next
    case 2
    with slice_indices_neg[OF si] range_list_neg[of st x s e] assms(2) xs show ?thesis by auto
  qed
qed

lemma range_getslice_zero_step:
  "range_getslice n a b (Some 0) = Inl (ValueError (Builtin ''slice step cannot be zero''))"
  by (simp add: range_getslice_def slice_indices_def)

lemma range_getslice_total:
  "c \<noteq> Some 0 \<Longrightarrow> \<exists>xs. range_getslice n a b c = Inr xs"
  by (auto simp: range_getslice_def slice_indices_def Let_def split: option.splits)

lemma range_len_unit: "range_len 0 (int n) 1 = n"
  by (simp add: range_len_def)

text \<open>A check of the slice model: \<^verbatim>\<open>range(n)[::1]\<close> is \<open>0, \<dots>, n - 1\<close>.\<close>

lemma range_getslice_step_one: "range_getslice n None None (Some 1) = Inr (map int [0 ..< n])"
  by (simp add: range_getslice_def slice_indices_def range_list_def range_len_unit)

lemma parse_indices_loop_length:
  "parse_indices_loop shp i xs out = Inr res \<Longrightarrow> length res = length out + length xs"
  by (induction xs arbitrary: i out) (auto split: if_splits sum.splits)

lemma parse_indices_length:
  assumes "parse_indices ob keys shp = Inr specs" and "length shp = 1 \<or> length shp = 2"
  shows "length specs = length shp"
proof -
  from assms obtain xs where "parse_indices_loop shp 0 xs [] = Inr specs" and "length xs = length shp"
    by (auto simp: parse_indices_def simp del: parse_indices_loop.simps
        split: if_splits pyobj.splits list.splits)
  then show ?thesis using parse_indices_loop_length by fastforce
qed

lemma parse_index_int_succeeds_iff: "(\<exists>spec. parse_index (PyInt i) n = Inr spec) \<longleftrightarrow> i < int n"
  by auto

section \<open>Index resolution\<close>

text \<open>
  C3. The claim: an integer index \<open>i\<close> for a dimension of size \<open>n\<close> resolves if and only if
  \<open>0 \<le> i < n\<close>, and every integer outside \<open>[0, n)\<close> raises IndexError. \<^verbatim>\<open>parse_index\<close>
  checks the upper bound only (\<^verbatim>\<open>if index >= size\<close>): the index \<open>-1\<close> for a dimension of
  size 5 is accepted and wrapped as it is.
\<close>

theorem parse_index_accepts_negative_integer:
  "parse_index (PyInt (- 1)) 5 = Inr (CScalar (- 1), None)"
  by simp

text \<open>
  C7, as the claim states it, fails: the slice \<^verbatim>\<open>0:\<close> is not the slice \<^verbatim>\<open>:\<close>, and it is
  not expanded into an explicit sequence either; it resolves to the ALL marker.
\<close>

theorem slice_from_zero_resolves_to_all:
  "PySlice (Some 0) None None \<noteq> PySlice None None None
   \<and> parse_index (PySlice (Some 0) None None) 3 = Inr (ALL_INDICES, Some (CScalar 3))"
  by simp

text \<open>
  C7, amended. For a dimension of size \<open>n\<close>, the slices \<^verbatim>\<open>:\<close> and \<^verbatim>\<open>0:\<close> (\<^verbatim>\<open>slice(None)\<close> and
  \<^verbatim>\<open>slice(0, None)\<close>) resolve to the ALL marker paired with \<open>n\<close>, with no explicit index
  list. Every other slice with a step other than zero is expanded by the slice semantics
  of \<^verbatim>\<open>range(n)\<close> into an explicit sequence of integers, all in \<open>[0, n)\<close>, paired with its
  length; a zero step raises ValueError.
\<close>

theorem parse_index_slice:
  "((a = None \<or> a = Some 0) \<and> b = None \<and> c = None \<longrightarrow>
      parse_index (PySlice a b c) n = Inr (ALL_INDICES, Some (CScalar (int n))))
   \<and> (\<not> ((a = None \<or> a = Some 0) \<and> b = None \<and> c = None) \<and> c \<noteq> Some 0 \<longrightarrow>
        (\<exists>xs. range_getslice n a b c = Inr xs
            \<and> parse_index (PySlice a b c) n =
                Inr (CArray (map PyInt xs), Some (CScalar (int (length xs))))
            \<and> (\<forall>x \<in> set xs. 0 \<le> x \<and> x < int n)))
   \<and> (c = Some 0 \<longrightarrow>
        parse_index (PySlice a b c) n = Inl (ValueError (Builtin ''slice step cannot be zero'')))"
proof (intro conjI impI)
  assume "(a = None \<or> a = Some 0) \<and> b = None \<and> c = None"
  then show "parse_index (PySlice a b c) n = Inr (ALL_INDICES, Some (CScalar (int n)))"
    by auto
next
  assume h: "\<not> ((a = None \<or> a = Some 0) \<and> b = None \<and> c = None) \<and> c \<noteq> Some 0"
  then obtain xs where xs: "range_getslice n a b c = Inr xs"
    using range_getslice_total by blast
  have "parse_index (PySlice a b c) n = Inr (CArray (map PyInt xs), Some (CScalar (int (length xs))))"
    using h xs by auto
  moreover have "\<forall>x \<in> set xs. 0 \<le> x \<and> x < int n"
    using range_getslice_bounds[OF xs] by blast
  ultimately show "\<exists>xs. range_getslice n a b c = Inr xs
      \<and> parse_index (PySlice a b c) n = Inr (CArray (map PyInt xs), Some (CScalar (int (length xs))))
      \<and> (\<forall>x \<in> set xs. 0 \<le> x \<and> x < int n)"
    using xs by blast
next
  assume "c = Some 0"
  then show "parse_index (PySlice a b c) n = Inl (ValueError (Builtin ''slice step cannot be zero''))"
    by (simp add: range_getslice_zero_step)
qed

theorem parse_index_slice_witness:
  "parse_index (PySlice None None None) 4 = Inr (ALL_INDICES, Some (CScalar 4))
   \<and> parse_index (PySlice (Some 1) None (Some 2)) 5 =
       Inr (CArray [PyInt 1, PyInt 3], Some (CScalar 2))
   \<and> parse_index (PySlice None (Some 2) (Some 0)) 5 =
       Inl (ValueError (Builtin ''slice step cannot be zero''))"
proof -
  have v: "range_getslice 5 (Some 1) None (Some 2) = Inr [1, 3]"
    by code_simp
  show ?thesis
    using parse_index_slice[of None None None 4]
      parse_index_slice[of "Some 1" None "Some 2" 5]
      parse_index_slice[of None "Some 2" "Some 0" 5] v
    by auto
qed

section \<open>Committing a value\<close>

lemma and_then_lift_Inr: "and_then (lift (Inr a)) f w = f a w"
  by (simp add: and_then_def lift_def)

lemma Updater_update_eq:
  "Updater_update E (Updater parent kw) = (\<lambda>delayed. update E parent delayed kw)"
  by (rule ext) simp

text \<open>
  C1. A value is committed through an Updater by \<^verbatim>\<open>C(params)[index] = v\<close>
  (\<^verbatim>\<open>Updater.__setitem__\<close>) or by an Assigner's \<^verbatim>\<open>update\<close> or \<^verbatim>\<open><<\<close>. When the resolved
  index is single-element and the Updater captured no call parameter, the commit is
  exactly the call of the primitive \<^verbatim>\<open>_assign_element\<close>, whatever the engine. In every
  other case it is \<^verbatim>\<open>_prep_for_assign\<close>, given the captured mask and the is_submask flag,
  followed, when that returned, by the primitive \<^verbatim>\<open>_update\<close> with all captured parameters.
\<close>

theorem commit_fast_path_or_deferred:
  assumes "\<not> is_scalar parent" and "IndexerResolver parent keys = Inr r"
  shows "(is_single_element r \<and> kw = [] \<longrightarrow>
            Updater_dunder_setitem E (Updater parent kw) keys v w = assign_element E parent r v w
          \<and> Assigner_update E (Assigner (Updater parent kw) r sub) v w = assign_element E parent r v w
          \<and> Assigner_dunder_lshift E (Assigner (Updater parent kw) r sub) v w
              = assign_element E parent r v w)
       \<and> (\<not> (is_single_element r \<and> kw = []) \<longrightarrow>
            Updater_dunder_setitem E (Updater parent kw) keys v w =
              and_then (prep_for_assign E parent r v (kwargs_get kw ''mask'') False)
                (\<lambda>delayed. update E parent delayed kw) w
          \<and> Assigner_update E (Assigner (Updater parent kw) r sub) v w =
              and_then (prep_for_assign E parent r v (kwargs_get kw ''mask'') sub)
                (\<lambda>delayed. update E parent delayed kw) w
          \<and> Assigner_dunder_lshift E (Assigner (Updater parent kw) r sub) v w =
              and_then (prep_for_assign E parent r v (kwargs_get kw ''mask'') sub)
                (\<lambda>delayed. update E parent delayed kw) w)"
  using assms by (auto simp: and_then_lift_Inr Updater_update_eq)

theorem commit_fast_path_or_deferred_witness:
  "Updater_dunder_setitem recording_engine (Updater (Vector 5) []) (PyInt 2) 7 []
     = (Inr (), [AssignElementCall (Vector 5) \<lparr>obj = Vector 5, indices = [(CScalar 2, None)]\<rparr>])
   \<and> Updater_dunder_setitem recording_engine (Updater (Vector 5) [(''mask'', KwNone)]) (PyInt 2) 7 []
     = (Inr (), [PrepForAssignCall (Vector 5) \<lparr>obj = Vector 5, indices = [(CScalar 2, None)]\<rparr> KwNone False,
                 UpdateCall (Vector 5) [(''mask'', KwNone)]])"
proof -
  have s: "\<not> is_scalar (Vector 5)" by simp
  have r: "IndexerResolver (Vector 5) (PyInt 2)
            = Inr \<lparr>obj = Vector 5, indices = [(CScalar 2, None)]\<rparr>"
    by (simp add: IndexerResolver_def parse_indices_def)
  show ?thesis
    using commit_fast_path_or_deferred[OF s r, of "[]" recording_engine 7 "[]" False]
      commit_fast_path_or_deferred[OF s r, of "[(''mask'', KwNone)]" recording_engine 7 "[]" False]
    by (simp add: is_single_element_def recording_engine_def and_then_def kwargs_get_def)
qed

text \<open>
  C8. Each commit routine resolves its index before it calls a primitive. When the
  container is a scalar, or the index does not resolve, \<^verbatim>\<open>C(params)[index] = v\<close>,
  \<^verbatim>\<open>del C(params)[index]\<close> and \<^verbatim>\<open>C(params)[index] << v\<close> return that error and leave the
  state of the engine as it was, whatever the engine: no primitive was called. The same
  holds for the delete of a multi-element index. An Assigner got by indexing an Updater
  holds an index that resolved.
\<close>

theorem commit_resolves_before_primitives:
  "(is_scalar parent \<longrightarrow>
      Updater_dunder_setitem E (Updater parent kw) keys v w
        = (Inl (TypeError IndexingNotSupportedForScalars), w)
    \<and> Updater_dunder_delitem E (Updater parent kw) keys w
        = (Inl (TypeError IndexingNotSupportedForScalars), w)
    \<and> updater_getitem_lshift E (Updater parent kw) keys v w
        = (Inl (TypeError IndexingNotSupportedForScalars), w))
   \<and> (\<not> is_scalar parent \<and> IndexerResolver parent keys = Inl e \<longrightarrow>
      Updater_dunder_setitem E (Updater parent kw) keys v w = (Inl e, w)
    \<and> Updater_dunder_delitem E (Updater parent kw) keys w = (Inl e, w)
    \<and> updater_getitem_lshift E (Updater parent kw) keys v w = (Inl e, w))
   \<and> (\<not> is_scalar parent \<and> IndexerResolver parent keys = Inr r \<and> \<not> is_single_element r \<longrightarrow>
      Updater_dunder_delitem E (Updater parent kw) keys w
        = (Inl (TypeError RemoveElementSingleIndex), w))
   \<and> (Updater_dunder_getitem (Updater parent kw) keys = Inr (Assigner up r sub) \<longrightarrow>
      IndexerResolver parent keys = Inr r)"
  by (auto simp: and_then_def lift_def py_raise_def updater_getitem_lshift_def Assigner_init_def
      split: sum.splits if_splits)

theorem commit_resolves_before_primitives_witness:
  "Updater_dunder_setitem recording_engine (Updater Scalar []) (PyInt 0) 7 []
     = (Inl (TypeError IndexingNotSupportedForScalars), [])
   \<and> Updater_dunder_setitem recording_engine (Updater (Vector 5) []) (PyInt 9) 7 []
     = (Inl (IndexError (IndexOutOfRange 9 5)), [])
   \<and> updater_getitem_lshift recording_engine (Updater (Vector 5) []) (PyTuple [PyInt 1]) 7 []
     = (Inl (TypeError (IndexCannotBeTuple ''Vector'')), [])
   \<and> Updater_dunder_delitem recording_engine (Updater (Vector 5) []) (PySlice None None None) []
     = (Inl (TypeError RemoveElementSingleIndex), [])"
proof -
  have a: "IndexerResolver (Vector 5) (PyInt 9) = Inl (IndexError (IndexOutOfRange 9 5))"
    by (simp add: IndexerResolver_def parse_indices_def)
  have b: "IndexerResolver (Vector 5) (PyTuple [PyInt 1]) = Inl (TypeError (IndexCannotBeTuple ''Vector''))"
    by (simp add: IndexerResolver_def parse_indices_def)
  have c: "IndexerResolver (Vector 5) (PySlice None None None)
            = Inr \<lparr>obj = Vector 5, indices = [(ALL_INDICES, Some (CScalar 5))]\<rparr>"
    by (simp add: IndexerResolver_def parse_indices_def)
  have d: "\<not> is_single_element \<lparr>obj = Vector 5, indices = [(ALL_INDICES, Some (CScalar 5))]\<rparr>"
    by (simp add: is_single_element_def)
  show ?thesis
    using commit_resolves_before_primitives[where parent = Scalar and E = recording_engine
          and kw = "[]" and keys = "PyInt 0" and v = 7 and w = "[]"]
      commit_resolves_before_primitives[where parent = "Vector 5" and E = recording_engine
          and kw = "[]" and keys = "PyInt 9" and v = 7 and w = "[]"
          and e = "IndexError (IndexOutOfRange 9 5)"] a
      commit_resolves_before_primitives[where parent = "Vector 5" and E = recording_engine
          and kw = "[]" and keys = "PyTuple [PyInt 1]" and v = 7 and w = "[]"
          and e = "TypeError (IndexCannotBeTuple ''Vector'')"] b
      commit_resolves_before_primitives[where parent = "Vector 5" and E = recording_engine
          and kw = "[]" and keys = "PySlice None None None" and v = 7 and w = "[]"
          and r = "\<lparr>obj = Vector 5, indices = [(ALL_INDICES, Some (CScalar 5))]\<rparr>"] c d
    by simp
qed

section \<open>Staging an assignment\<close>

text \<open>
  The check of \<^verbatim>\<open>input_mask\<close> is in the constructor of the Assigner: on an Updater whose
  call parameters hold an \<^verbatim>\<open>input_mask\<close> it raises at once the TypeError
  "`input_mask` argument may only be used for extract" (ParameterKind in the
  specification), in \<^verbatim>\<open>C(params)[index]\<close> once the index resolved and in
  \<^verbatim>\<open>C[index](params)\<close>, whether a \<^verbatim>\<open>mask\<close> was supplied too or not.
\<close>

lemma Assigner_init_rejects_input_mask:
  assumes "kwargs_get (kwargs_of up) ''input_mask'' \<noteq> KwNone"
  shows "Assigner_init up r sub = Inl (TypeError InputMaskOnlyForExtract)"
  using assms by (simp add: Assigner_init_def)

lemma Updater_getitem_rejects_input_mask:
  assumes "kwargs_get kw ''input_mask'' \<noteq> KwNone"
    and "\<not> is_scalar parent" and "IndexerResolver parent keys = Inr r"
  shows "Updater_dunder_getitem (Updater parent kw) keys = Inl (TypeError InputMaskOnlyForExtract)"
  using assms by (simp add: Assigner_init_def)

lemma staging_call_rejects_input_mask:
  assumes "kwargs_get kw ''input_mask'' \<noteq> KwNone"
  shows "AmbiguousAssignOrExtract_dunder_call (AmbiguousAssignOrExtract parent r) args kw
           = Inl (TypeError InputMaskOnlyForExtract)"
  using assms by (simp add: Assigner_init_def container_call_def)


section \<open>The length of a resolved index\<close>

text \<open>
  C9, as the claim states it, fails: the projection \<^verbatim>\<open>get_index\<close> constructs a resolver
  bound to the two-dimensional container of the resolver it projects, holding one
  index spec.
\<close>

theorem projection_holds_one_spec_for_matrix:
  "IndexerResolver (Matrix 2 3) (PyTuple [PyInt 0, PySlice None None None])
     = Inr \<lparr>obj = Matrix 2 3, indices = [(CScalar 0, None), (ALL_INDICES, Some (CScalar 3))]\<rparr>
   \<and> get_index \<lparr>obj = Matrix 2 3, indices = [(CScalar 0, None), (ALL_INDICES, Some (CScalar 3))]\<rparr> 1
     = Inr \<lparr>obj = Matrix 2 3, indices = [(ALL_INDICES, Some (CScalar 3))]\<rparr>
   \<and> length (shape (Matrix 2 3)) = 2
   \<and> length [(ALL_INDICES, Some (CScalar 3))] = 1"
  by (simp add: IndexerResolver_def parse_indices_def get_index_def)

lemma shape_length: "\<not> is_scalar ob \<Longrightarrow> length (shape ob) = 1 \<or> length (shape ob) = 2"
  by (cases ob) simp_all

text \<open>
  C9, amended. Every resolver built by index resolution, \<^verbatim>\<open>IndexerResolver(obj, indices)\<close>,
  on a container that is not a scalar holds as many index specs as the container has
  dimensions: one for a Vector, two for a Matrix or a transposed Matrix. The projection
  \<^verbatim>\<open>get_index\<close> builds a resolver of one spec bound to the same container. On a scalar
  every indexing path of an Updater raises the TypeError "Indexing not supported for
  Scalars" (OperationKind in the specification) whatever the index, before a resolver is
  built.
\<close>

theorem resolver_length_is_dimensionality:
  "(\<not> is_scalar ob \<and> IndexerResolver ob keys = Inr r \<longrightarrow>
      obj r = ob \<and> length (indices r) = length (shape ob)
    \<and> (is_Vector ob \<longrightarrow> length (indices r) = 1)
    \<and> (\<not> is_Vector ob \<longrightarrow> length (indices r) = 2))
   \<and> (get_index r dim = Inr rv \<longrightarrow> obj rv = obj r \<and> length (indices rv) = 1)
   \<and> (is_scalar ob \<longrightarrow>
        Updater_dunder_getitem (Updater ob kw) keys = Inl (TypeError IndexingNotSupportedForScalars)
      \<and> Updater_dunder_setitem E (Updater ob kw) keys v w
          = (Inl (TypeError IndexingNotSupportedForScalars), w)
      \<and> Updater_dunder_delitem E (Updater ob kw) keys w
          = (Inl (TypeError IndexingNotSupportedForScalars), w))"
proof (intro conjI impI)
  assume h: "\<not> is_scalar ob \<and> IndexerResolver ob keys = Inr r"
  then obtain specs where sp: "parse_indices ob keys (shape ob) = Inr specs"
    and r: "r = \<lparr>obj = ob, indices = specs\<rparr>"
    by (auto simp: IndexerResolver_def split: sum.splits)
  show "obj r = ob" using r by simp
  show len: "length (indices r) = length (shape ob)"
    using parse_indices_length[OF sp] shape_length[of ob] h r by simp
  show "length (indices r) = 1" if "is_Vector ob"
    using that len by (cases ob) simp_all
  show "length (indices r) = 2" if "\<not> is_Vector ob"
    using that len h by (cases ob) simp_all
next
  assume "get_index r dim = Inr rv"
  then show "obj rv = obj r" "length (indices rv) = 1"
    by (auto simp: get_index_def split: if_splits)
qed (simp_all add: py_raise_def)

theorem resolver_length_is_dimensionality_witness:
  "(case IndexerResolver (Vector 5) (PyList [PyInt 0, PyInt 3]) of
      Inr r \<Rightarrow> obj r = Vector 5 \<and> length (indices r) = 1 | Inl e \<Rightarrow> False)
   \<and> (case IndexerResolver (TransposedMatrix 2 3) (PyTuple [PyInt 1, PySlice None None None]) of
      Inr r \<Rightarrow> obj r = TransposedMatrix 2 3 \<and> length (indices r) = 2 | Inl e \<Rightarrow> False)
   \<and> Updater_dunder_getitem (Updater Scalar []) (PyInt 0)
       = Inl (TypeError IndexingNotSupportedForScalars)
   \<and> Updater_dunder_delitem recording_engine (Updater Scalar []) (PyTuple []) []
       = (Inl (TypeError IndexingNotSupportedForScalars), [])"
proof -
  have a: "IndexerResolver (Vector 5) (PyList [PyInt 0, PyInt 3])
      = Inr \<lparr>obj = Vector 5, indices = [(CArray [PyInt 0, PyInt 3], Some (CScalar 2))]\<rparr>"
    by (simp add: IndexerResolver_def parse_indices_def)
  have b: "IndexerResolver (TransposedMatrix 2 3) (PyTuple [PyInt 1, PySlice None None None])
      = Inr \<lparr>obj = TransposedMatrix 2 3,
             indices = [(CScalar 1, None), (ALL_INDICES, Some (CScalar 3))]\<rparr>"
    by (simp add: IndexerResolver_def parse_indices_def)
  show ?thesis
    using resolver_length_is_dimensionality[where ob = "Vector 5"
          and keys = "PyList [PyInt 0, PyInt 3]"
          and r = "\<lparr>obj = Vector 5, indices = [(CArray [PyInt 0, PyInt 3], Some (CScalar 2))]\<rparr>"]
      resolver_length_is_dimensionality[where ob = "TransposedMatrix 2 3"
          and keys = "PyTuple [PyInt 1, PySlice None None None]"
          and r = "\<lparr>obj = TransposedMatrix 2 3,
             indices = [(CScalar 1, None), (ALL_INDICES, Some (CScalar 3))]\<rparr>"]
      resolver_length_is_dimensionality[where ob = Scalar and keys = "PyInt 0" and kw = "[]"]
      resolver_length_is_dimensionality[where ob = Scalar and keys = "PyTuple []" and kw = "[]"
          and E = recording_engine and w = "[]"]
      a b
    by simp
qed

section \<open>Assigning into a transposed view\<close>



section \<open>Infix dispatch\<close>

lemma expect_type_raises:
  "type_of x \<notin> set types \<Longrightarrow> expect_type x types within argname = Some (TypeError (ExpectType within argname))"
  by (simp add: expect_type_def)

text \<open>
  C4. In \<^verbatim>\<open>_matmul_infix_expr\<close>, a Vector with a Matrix or transposed Matrix binds the
  method \<^verbatim>\<open>vxm\<close>, a Matrix or transposed Matrix with a Vector binds \<^verbatim>\<open>mxv\<close>, and two of
  Matrix or transposed Matrix bind \<^verbatim>\<open>mxm\<close>. With the probe of that method returning a
  vector expression for \<^verbatim>\<open>vxm\<close> and \<^verbatim>\<open>mxv\<close> and a matrix expression for \<^verbatim>\<open>mxm\<close>, the node
  is a \<^verbatim>\<open>VectorMatMulExpr\<close> tagged with the method, with the probe's size, or a
  \<^verbatim>\<open>MatrixMatMulExpr\<close>, tagged \<^verbatim>\<open>mxm\<close>, with the probe's shape. Every other pairing, Vector
  with Vector among them, raises TypeError. An error of the probe is the error of the
  dispatch.
\<close>

theorem matmul_infix_dispatch:
  "(type_of l = VectorT \<and> type_of r \<in> {MatrixT, TransposedMatrixT}
      \<and> prb ''vxm'' l r = Inr (VectorExpression n) \<longrightarrow>
        matmul_infix_expr prb l r within = Inr (VectorMatMulExpr l r ''vxm'' n))
   \<and> (type_of l \<in> {MatrixT, TransposedMatrixT} \<and> type_of r = VectorT
      \<and> prb ''mxv'' l r = Inr (VectorExpression n) \<longrightarrow>
        matmul_infix_expr prb l r within = Inr (VectorMatMulExpr l r ''mxv'' n))
   \<and> (type_of l \<in> {MatrixT, TransposedMatrixT} \<and> type_of r \<in> {MatrixT, TransposedMatrixT}
      \<and> prb ''mxm'' l r = Inr (MatrixExpression a b) \<longrightarrow>
        matmul_infix_expr prb l r within = Inr (MatrixMatMulExpr l r a b)
      \<and> method_name (MatrixMatMulExpr l r a b) = ''mxm'')
   \<and> (\<not> (type_of l = VectorT \<and> type_of r \<in> {MatrixT, TransposedMatrixT})
      \<and> \<not> (type_of l \<in> {MatrixT, TransposedMatrixT} \<and> type_of r = VectorT)
      \<and> \<not> (type_of l \<in> {MatrixT, TransposedMatrixT} \<and> type_of r \<in> {MatrixT, TransposedMatrixT}) \<longrightarrow>
        is_TypeError (matmul_infix_expr prb l r within))
   \<and> (matmul_method l r within = Inr (Some m) \<and> prb m l r = Inl e \<longrightarrow>
        matmul_infix_expr prb l r within = Inl e)"
proof (intro conjI impI)
  assume "\<not> (type_of l = VectorT \<and> type_of r \<in> {MatrixT, TransposedMatrixT})
      \<and> \<not> (type_of l \<in> {MatrixT, TransposedMatrixT} \<and> type_of r = VectorT)
      \<and> \<not> (type_of l \<in> {MatrixT, TransposedMatrixT} \<and> type_of r \<in> {MatrixT, TransposedMatrixT})"
  then have "\<exists>msg. matmul_method l r within = Inl (TypeError msg)"
    by (auto simp: matmul_method_def Let_def expect_type_def)
  then show "is_TypeError (matmul_infix_expr prb l r within)"
    by (auto simp: matmul_infix_expr_def)
qed (auto simp: matmul_infix_expr_def matmul_method_def Let_def)

theorem matmul_infix_dispatch_witness:
  "matmul_infix_expr shape_probe (Obj (Vector 2)) (Obj (Matrix 2 3)) ''__matmul__''
     = Inr (VectorMatMulExpr (Obj (Vector 2)) (Obj (Matrix 2 3)) ''vxm'' 3)
   \<and> matmul_infix_expr shape_probe (Obj (Matrix 2 3)) (Obj (Vector 3)) ''__matmul__''
     = Inr (VectorMatMulExpr (Obj (Matrix 2 3)) (Obj (Vector 3)) ''mxv'' 2)
   \<and> matmul_infix_expr shape_probe (Obj (Matrix 2 3)) (Obj (Matrix 3 4)) ''__matmul__''
     = Inr (MatrixMatMulExpr (Obj (Matrix 2 3)) (Obj (Matrix 3 4)) 2 4)
   \<and> is_TypeError (matmul_infix_expr shape_probe (Obj (Vector 2)) (Obj (Vector 2)) ''__matmul__'')
   \<and> matmul_infix_expr shape_probe (Obj (Vector 5)) (Obj (Matrix 2 3)) ''__matmul__''
     = Inl (ValueError (Builtin ''dimension mismatch''))"
  using matmul_infix_dispatch[where prb = shape_probe and l = "Obj (Vector 2)"
        and r = "Obj (Matrix 2 3)" and n = 3 and within = "''__matmul__''"]
    matmul_infix_dispatch[where prb = shape_probe and l = "Obj (Matrix 2 3)"
        and r = "Obj (Vector 3)" and n = 2 and within = "''__matmul__''"]
    matmul_infix_dispatch[where prb = shape_probe and l = "Obj (Matrix 2 3)"
        and r = "Obj (Matrix 3 4)" and a = 2 and b = 4 and within = "''__matmul__''"]
    matmul_infix_dispatch[where prb = shape_probe and l = "Obj (Vector 2)"
        and r = "Obj (Vector 2)" and within = "''__matmul__''"]
    matmul_infix_dispatch[where prb = shape_probe and l = "Obj (Vector 5)"
        and r = "Obj (Matrix 2 3)" and within = "''__matmul__''" and m = "''vxm''"
        and e = "ValueError (Builtin ''dimension mismatch'')"]
  by (simp add: matmul_method_def)

text \<open>
  C5. \<^verbatim>\<open>_ewise_infix_expr\<close> (union or intersection) is reached from the operator of a
  container, so one operand at least is a Vector, a Matrix or a transposed Matrix. A
  Vector with a Vector and a Matrix or transposed Matrix with a Matrix or transposed
  Matrix pass the check of the variants: the outcome is then that of the probe, an error
  of the probe being the error of the dispatch, and a node otherwise, which for two
  Vectors holds the size of the left operand. Any other pairing raises TypeError, naming
  the argument \<^verbatim>\<open>right\<close> when the left operand is a container of these, and the argument
  \<^verbatim>\<open>left\<close> when only the right one is.
\<close>

theorem ewise_infix_dispatch:
  "(l = Obj (Vector n) \<and> type_of r = VectorT \<and> prb mth l r = Inr (VectorExpression k) \<longrightarrow>
      ewise_infix_expr prb l r mth within =
        Inr (if mth = ''ewise_mult'' then VectorEwiseMultExpr l r n else VectorEwiseAddExpr l r n)
    \<and> expr_size (if mth = ''ewise_mult'' then VectorEwiseMultExpr l r n
                   else VectorEwiseAddExpr l r n) = Some n)
   \<and> (type_of l \<in> {MatrixT, TransposedMatrixT} \<and> type_of r \<in> {MatrixT, TransposedMatrixT}
      \<and> prb mth l r = Inr (MatrixExpression a b) \<longrightarrow>
        (\<exists>nr nc. operand_nrows l = Inr nr \<and> operand_ncols l = Inr nc
           \<and> ewise_infix_expr prb l r mth within =
               Inr (if mth = ''ewise_mult'' then MatrixEwiseMultExpr l r nr nc
                    else MatrixEwiseAddExpr l r nr nc)))
   \<and> (((type_of l = VectorT \<and> type_of r = VectorT)
        \<or> (type_of l \<in> {MatrixT, TransposedMatrixT} \<and> type_of r \<in> {MatrixT, TransposedMatrixT}))
      \<and> prb mth l r = Inl e \<longrightarrow>
        ewise_infix_expr prb l r mth within = Inl e)
   \<and> ((type_of l = VectorT \<and> type_of r \<noteq> VectorT)
        \<or> (type_of l \<in> {MatrixT, TransposedMatrixT} \<and> type_of r \<notin> {MatrixT, TransposedMatrixT}) \<longrightarrow>
        ewise_infix_expr prb l r mth within = Inl (TypeError (ExpectType within ''right'')))
   \<and> (type_of l \<notin> {VectorT, MatrixT, TransposedMatrixT}
        \<and> type_of r \<in> {VectorT, MatrixT, TransposedMatrixT} \<longrightarrow>
        ewise_infix_expr prb l r mth within = Inl (TypeError (ExpectType within ''left'')))
   \<and> ((type_of l \<in> {VectorT, MatrixT, TransposedMatrixT}
          \<or> type_of r \<in> {VectorT, MatrixT, TransposedMatrixT})
        \<and> \<not> (type_of l = VectorT \<and> type_of r = VectorT)
        \<and> \<not> (type_of l \<in> {MatrixT, TransposedMatrixT} \<and> type_of r \<in> {MatrixT, TransposedMatrixT}) \<longrightarrow>
        is_TypeError (ewise_infix_expr prb l r mth within)
        \<and> (named_argument (ewise_infix_expr prb l r mth within) = Some ''left''
            \<or> named_argument (ewise_infix_expr prb l r mth within) = Some ''right''))"
proof (intro conjI impI)
  assume h: "type_of l \<in> {MatrixT, TransposedMatrixT} \<and> type_of r \<in> {MatrixT, TransposedMatrixT}
      \<and> prb mth l r = Inr (MatrixExpression a b)"
  then have chk: "ewise_type_check l r within = None"
    by (auto simp: ewise_type_check_def Let_def)
  from h obtain nr nc where lm: "l = Obj (Matrix nr nc) \<or> l = Obj (TransposedMatrix nr nc)"
    by (cases l rule: type_of.cases) auto
  then have "operand_nrows l = Inr nr" "operand_ncols l = Inr nc" by auto
  then show "\<exists>nr nc. operand_nrows l = Inr nr \<and> operand_ncols l = Inr nc
           \<and> ewise_infix_expr prb l r mth within =
               Inr (if mth = ''ewise_mult'' then MatrixEwiseMultExpr l r nr nc
                    else MatrixEwiseAddExpr l r nr nc)"
    using h chk
    by (auto simp: ewise_infix_expr_def MatrixEwiseMultExpr_init_def MatrixEwiseAddExpr_init_def)
next
  assume h: "(type_of l \<in> {VectorT, MatrixT, TransposedMatrixT}
          \<or> type_of r \<in> {VectorT, MatrixT, TransposedMatrixT})
        \<and> \<not> (type_of l = VectorT \<and> type_of r = VectorT)
        \<and> \<not> (type_of l \<in> {MatrixT, TransposedMatrixT} \<and> type_of r \<in> {MatrixT, TransposedMatrixT})"
  then have "ewise_infix_expr prb l r mth within = Inl (TypeError (ExpectType within ''right''))
      \<or> ewise_infix_expr prb l r mth within = Inl (TypeError (ExpectType within ''left''))"
    by (auto simp: ewise_infix_expr_def ewise_type_check_def Let_def expect_type_def)
  then show "is_TypeError (ewise_infix_expr prb l r mth within)"
    and "named_argument (ewise_infix_expr prb l r mth within) = Some ''left''
            \<or> named_argument (ewise_infix_expr prb l r mth within) = Some ''right''"
    by auto
qed (auto simp: ewise_infix_expr_def ewise_type_check_def Let_def expect_type_def
      VectorEwiseMultExpr_init_def VectorEwiseAddExpr_init_def)

theorem ewise_infix_dispatch_witness:
  "ewise_infix_expr shape_probe (Obj (Vector 4)) (Obj (Vector 4)) ''ewise_add'' ''__or__''
     = Inr (VectorEwiseAddExpr (Obj (Vector 4)) (Obj (Vector 4)) 4)
   \<and> ewise_infix_expr shape_probe (Obj (Matrix 2 3)) (Obj (Matrix 2 3)) ''ewise_mult'' ''__and__''
     = Inr (MatrixEwiseMultExpr (Obj (Matrix 2 3)) (Obj (Matrix 2 3)) 2 3)
   \<and> ewise_infix_expr shape_probe (Obj (Vector 4)) (Obj (Vector 5)) ''ewise_add'' ''__or__''
     = Inl (ValueError (Builtin ''dimension mismatch''))
   \<and> ewise_infix_expr shape_probe (Obj (Vector 4)) (Obj (Matrix 2 3)) ''ewise_add'' ''__or__''
     = Inl (TypeError (ExpectType ''__or__'' ''right''))
   \<and> ewise_infix_expr shape_probe (Foreign ''int'') (Obj (Vector 4)) ''ewise_add'' ''__ror__''
     = Inl (TypeError (ExpectType ''__ror__'' ''left''))
   \<and> named_argument
       (ewise_infix_expr shape_probe (Obj (TransposedMatrix 3 2)) (Foreign ''float'')
          ''ewise_mult'' ''__and__'') = Some ''right''"
  using ewise_infix_dispatch[where prb = shape_probe and l = "Obj (Vector 4)" and n = 4
        and r = "Obj (Vector 4)" and k = 4 and mth = "''ewise_add''" and within = "''__or__''"]
    ewise_infix_dispatch[where prb = shape_probe and l = "Obj (Matrix 2 3)"
        and r = "Obj (Matrix 2 3)" and a = 2 and b = 3 and mth = "''ewise_mult''"
        and within = "''__and__''"]
    ewise_infix_dispatch[where prb = shape_probe and l = "Obj (Vector 4)"
        and r = "Obj (Vector 5)" and mth = "''ewise_add''" and within = "''__or__''"
        and e = "ValueError (Builtin ''dimension mismatch'')"]
    ewise_infix_dispatch[where prb = shape_probe and l = "Obj (Vector 4)"
        and r = "Obj (Matrix 2 3)" and mth = "''ewise_add''" and within = "''__or__''"]
    ewise_infix_dispatch[where prb = shape_probe and l = "Foreign ''int''"
        and r = "Obj (Vector 4)" and mth = "''ewise_add''" and within = "''__ror__''"]
    ewise_infix_dispatch[where prb = shape_probe and l = "Obj (TransposedMatrix 3 2)"
        and r = "Foreign ''float''" and mth = "''ewise_mult''" and within = "''__and__''"]
  by simp

section \<open>Translating an input mask\<close>

lemma and_then_assoc:
  "and_then (and_then m f) g = and_then m (\<lambda>a. and_then (f a) g)"
  by (rule ext) (simp add: and_then_def split: prod.splits sum.splits)

lemma and_then_return: "and_then (py_return a) f = f a"
  by (rule ext) (simp add: and_then_def py_return_def)

lemma and_then_raise: "and_then (py_raise e) f = py_raise e"
  by (rule ext) (simp add: and_then_def py_raise_def)

lemma and_then_lift_Inl: "and_then (lift (Inl e)) f = py_raise e"
  by (rule ext) (simp add: and_then_def lift_def py_raise_def)

lemma and_then_lift_Inr_fun: "and_then (lift (Inr a)) f = f a"
  by (rule ext) (simp add: and_then_def lift_def)

lemma and_then_after: "m w = (Inr a, w1) \<Longrightarrow> and_then m f w = f a w1"
  by (simp add: and_then_def)

lemma and_then_pair_inl: "and_then (Pair (Inl e)) f w = (Inl e, w)"
  by (simp add: and_then_def)

lemma shape_two:
  "shape parent = [nr, nc] \<Longrightarrow>
     \<not> is_Vector parent \<and> ncols_attr parent = Inr nc \<and> nrows_attr parent = Inr nr"
  by (cases parent) simp_all

lemma single_two:
  "indices r = [(i, rowsize), (j, colsize)] \<Longrightarrow>
     is_single_element r = (rowsize = None \<and> colsize = None)"
  by (simp add: is_single_element_def)

text \<open>
  C2. \<^verbatim>\<open>C[index].new(input_mask=M)\<close> on a two-dimensional container, with \<open>M\<close> a mask on a
  Vector of size \<open>n\<close>, once the check of the mask passed. With both resolved dimensions
  plain integers the call raises TypeError (masks are not allowed for a single element),
  with neither it raises TypeError (a Vector mask on a submatrix). With the row a plain
  integer, \<open>M\<close> must have the number of columns of the container, and with the column a
  plain integer the number of rows: otherwise ValueError is raised, carrying the two
  sizes, and when they agree the mask is extracted through the projection of the index
  on the ranging dimension, materialised, and given to the extraction. A mask of the
  kind of the container (both on Vectors, or neither) is extracted through the resolved
  index as it is when the shapes are equal, and raises ValueError, carrying the two
  shapes, when they differ.
\<close>

theorem input_mask_translation:
  "(shape parent = [nr, nc] \<and> indices r = [(i, rowsize), (j, colsize)]
      \<and> check_mask E (Mask mt (Vector n)) parent w = (Inr (), w1) \<longrightarrow>
      (rowsize = None \<and> colsize = None \<longrightarrow>
         AmbiguousAssignOrExtract_new E (AmbiguousAssignOrExtract parent r) dtype None
             (Some (Mask mt (Vector n))) name w
           = (Inl (TypeError MaskNotAllowedForSingleElement), w))
    \<and> (rowsize \<noteq> None \<and> colsize \<noteq> None \<longrightarrow>
         AmbiguousAssignOrExtract_new E (AmbiguousAssignOrExtract parent r) dtype None
             (Some (Mask mt (Vector n))) name w
           = (Inl (TypeError VectorInputMaskForSubmatrix), w1))
    \<and> (rowsize = None \<and> colsize \<noteq> None \<and> nc \<noteq> n \<longrightarrow>
         AmbiguousAssignOrExtract_new E (AmbiguousAssignOrExtract parent r) dtype None
             (Some (Mask mt (Vector n))) name w
           = (Inl (ValueError (InputMaskSizeNcols nc n)), w1))
    \<and> (rowsize \<noteq> None \<and> colsize = None \<and> nr \<noteq> n \<longrightarrow>
         AmbiguousAssignOrExtract_new E (AmbiguousAssignOrExtract parent r) dtype None
             (Some (Mask mt (Vector n))) name w
           = (Inl (ValueError (InputMaskSizeNrows nr n)), w1))
    \<and> (rowsize = None \<and> colsize \<noteq> None \<and> nc = n \<longrightarrow>
         AmbiguousAssignOrExtract_new E (AmbiguousAssignOrExtract parent r) dtype None
             (Some (Mask mt (Vector n))) name w
           = and_then (prep_for_extract E (Vector n) \<lparr>obj = obj r, indices = [(j, colsize)]\<rparr>)
               (\<lambda>mask_expr. and_then (extractor_new E mask_expr None None (Some ''mask_temp''))
               (\<lambda>mask_value. and_then (prep_for_extract E parent r)
               (\<lambda>delayed. extractor_new E delayed dtype (Some (Mask mt mask_value)) name))) w1)
    \<and> (rowsize \<noteq> None \<and> colsize = None \<and> nr = n \<longrightarrow>
         AmbiguousAssignOrExtract_new E (AmbiguousAssignOrExtract parent r) dtype None
             (Some (Mask mt (Vector n))) name w
           = and_then (prep_for_extract E (Vector n) \<lparr>obj = obj r, indices = [(i, rowsize)]\<rparr>)
               (\<lambda>mask_expr. and_then (extractor_new E mask_expr None None (Some ''mask_temp''))
               (\<lambda>mask_value. and_then (prep_for_extract E parent r)
               (\<lambda>delayed. extractor_new E delayed dtype (Some (Mask mt mask_value)) name))) w1))
   \<and> (\<not> is_single_element r' \<and> check_mask E (Mask mt m) parent' w = (Inr (), w1)
      \<and> is_Vector m = is_Vector parent' \<longrightarrow>
      (shape m = shape parent' \<longrightarrow>
         AmbiguousAssignOrExtract_new E (AmbiguousAssignOrExtract parent' r') dtype None
             (Some (Mask mt m)) name w
           = and_then (prep_for_extract E m r')
               (\<lambda>mask_expr. and_then (extractor_new E mask_expr None None (Some ''mask_temp''))
               (\<lambda>mask_value. and_then (prep_for_extract E parent' r')
               (\<lambda>delayed. extractor_new E delayed dtype (Some (Mask mt mask_value)) name))) w1)
    \<and> (shape m \<noteq> shape parent' \<longrightarrow>
         AmbiguousAssignOrExtract_new E (AmbiguousAssignOrExtract parent' r') dtype None
             (Some (Mask mt m)) name w
           = (Inl (ValueError (InputMaskShapeMismatch
                      (if is_Vector parent' then ''size'' else ''shape'')
                      (shape parent') (shape m))), w1)))"
proof (intro conjI impI)
  assume h: "\<not> is_single_element r' \<and> check_mask E (Mask mt m) parent' w = (Inr (), w1)
      \<and> is_Vector m = is_Vector parent'"
  assume ne: "shape m \<noteq> shape parent'"
  show "AmbiguousAssignOrExtract_new E (AmbiguousAssignOrExtract parent' r') dtype None
             (Some (Mask mt m)) name w
           = (Inl (ValueError (InputMaskShapeMismatch
                      (if is_Vector parent' then ''size'' else ''shape'')
                      (shape parent') (shape m))), w1)"
  proof (cases "is_Vector parent'")
    case True
    with h obtain p q where "parent' = Vector p" "m = Vector q"
      by (cases parent'; cases m) auto
    with h ne show ?thesis
      by (simp add: and_then_assoc and_then_raise and_then_lift_Inr_fun input_mask_expr_def
          and_then_after py_raise_def and_then_pair_inl)
  next
    case False
    with h ne show ?thesis
      by (simp add: and_then_assoc and_then_raise input_mask_expr_def and_then_after py_raise_def and_then_pair_inl)
  qed
next
  assume h: "\<not> is_single_element r' \<and> check_mask E (Mask mt m) parent' w = (Inr (), w1)
      \<and> is_Vector m = is_Vector parent'"
  assume eq: "shape m = shape parent'"
  from h eq show "AmbiguousAssignOrExtract_new E (AmbiguousAssignOrExtract parent' r') dtype None
             (Some (Mask mt m)) name w
           = and_then (prep_for_extract E m r')
               (\<lambda>mask_expr. and_then (extractor_new E mask_expr None None (Some ''mask_temp''))
               (\<lambda>mask_value. and_then (prep_for_extract E parent' r')
               (\<lambda>delayed. extractor_new E delayed dtype (Some (Mask mt mask_value)) name))) w1"
    by (simp add: and_then_assoc and_then_return input_mask_expr_def and_then_after)
qed (auto simp: single_two and_then_assoc and_then_raise and_then_return and_then_lift_Inr_fun
      input_mask_expr_def and_then_after py_raise_def and_then_pair_inl get_index_def dest!: shape_two)


theorem input_mask_translation_witness:
  "AmbiguousAssignOrExtract_new recording_engine
     (AmbiguousAssignOrExtract (Matrix 2 3)
        \<lparr>obj = Matrix 2 3, indices = [(CScalar 0, None), (ALL_INDICES, Some (CScalar 3))]\<rparr>)
     None None (Some (Mask ''StructuralMask'' (Vector 3))) None []
     = (Inr (Vector 3),
        [CheckMaskCall (Mask ''StructuralMask'' (Vector 3)) (Matrix 2 3),
         PrepForExtractCall (Vector 3)
           \<lparr>obj = Matrix 2 3, indices = [(ALL_INDICES, Some (CScalar 3))]\<rparr>,
         NewCall None (Some ''mask_temp''),
         PrepForExtractCall (Matrix 2 3)
           \<lparr>obj = Matrix 2 3, indices = [(CScalar 0, None), (ALL_INDICES, Some (CScalar 3))]\<rparr>,
         NewCall (Some (Mask ''StructuralMask'' (Vector 3))) None])
   \<and> AmbiguousAssignOrExtract_new recording_engine
     (AmbiguousAssignOrExtract (Matrix 2 3)
        \<lparr>obj = Matrix 2 3, indices = [(CScalar 0, None), (ALL_INDICES, Some (CScalar 3))]\<rparr>)
     None None (Some (Mask ''StructuralMask'' (Vector 4))) None []
     = (Inl (ValueError (InputMaskSizeNcols 3 4)),
        [CheckMaskCall (Mask ''StructuralMask'' (Vector 4)) (Matrix 2 3)])
   \<and> AmbiguousAssignOrExtract_new recording_engine
     (AmbiguousAssignOrExtract (Matrix 2 3)
        \<lparr>obj = Matrix 2 3,
          indices = [(ALL_INDICES, Some (CScalar 2)), (ALL_INDICES, Some (CScalar 3))]\<rparr>)
     None None (Some (Mask ''StructuralMask'' (Vector 3))) None []
     = (Inl (TypeError VectorInputMaskForSubmatrix),
        [CheckMaskCall (Mask ''StructuralMask'' (Vector 3)) (Matrix 2 3)])
   \<and> AmbiguousAssignOrExtract_new recording_engine
     (AmbiguousAssignOrExtract (Matrix 2 3)
        \<lparr>obj = Matrix 2 3, indices = [(CScalar 0, None), (ALL_INDICES, Some (CScalar 3))]\<rparr>)
     None None (Some (Mask ''ValueMask'' (Matrix 2 2))) None []
     = (Inl (ValueError (InputMaskShapeMismatch ''shape'' [2, 3] [2, 2])),
        [CheckMaskCall (Mask ''ValueMask'' (Matrix 2 2)) (Matrix 2 3)])"
  using input_mask_translation[where E = recording_engine and parent = "Matrix 2 3"
        and nr = 2 and nc = 3 and n = 3 and mt = "''StructuralMask''" and w = "[]"
        and r = "\<lparr>obj = Matrix 2 3, indices = [(CScalar 0, None), (ALL_INDICES, Some (CScalar 3))]\<rparr>"
        and i = "CScalar 0" and rowsize = None and j = ALL_INDICES and colsize = "Some (CScalar 3)"
        and ?w1.0 = "[CheckMaskCall (Mask ''StructuralMask'' (Vector 3)) (Matrix 2 3)]"
        and dtype = None and name = None]
    input_mask_translation[where E = recording_engine and parent = "Matrix 2 3"
        and nr = 2 and nc = 3 and n = 4 and mt = "''StructuralMask''" and w = "[]"
        and r = "\<lparr>obj = Matrix 2 3, indices = [(CScalar 0, None), (ALL_INDICES, Some (CScalar 3))]\<rparr>"
        and i = "CScalar 0" and rowsize = None and j = ALL_INDICES and colsize = "Some (CScalar 3)"
        and ?w1.0 = "[CheckMaskCall (Mask ''StructuralMask'' (Vector 4)) (Matrix 2 3)]"
        and dtype = None and name = None]
    input_mask_translation[where E = recording_engine and parent = "Matrix 2 3"
        and nr = 2 and nc = 3 and n = 3 and mt = "''StructuralMask''" and w = "[]"
        and r = "\<lparr>obj = Matrix 2 3,
          indices = [(ALL_INDICES, Some (CScalar 2)), (ALL_INDICES, Some (CScalar 3))]\<rparr>"
        and i = ALL_INDICES and rowsize = "Some (CScalar 2)" and j = ALL_INDICES
        and colsize = "Some (CScalar 3)"
        and ?w1.0 = "[CheckMaskCall (Mask ''StructuralMask'' (Vector 3)) (Matrix 2 3)]"
        and dtype = None and name = None]
    input_mask_translation[where E = recording_engine and parent' = "Matrix 2 3"
        and m = "Matrix 2 2" and mt = "''ValueMask''" and w = "[]"
        and r' = "\<lparr>obj = Matrix 2 3, indices = [(CScalar 0, None), (ALL_INDICES, Some (CScalar 3))]\<rparr>"
        and ?w1.0 = "[CheckMaskCall (Mask ''ValueMask'' (Matrix 2 2)) (Matrix 2 3)]"
        and dtype = None and name = None]
  by (simp add: recording_engine_def and_then_def is_single_element_def)

end
